theory Spec2Isabelle
  imports Complex_Main
begin

section \<open>Restaurant withdrawal requests against the wallet ledger\<close>

text \<open>
  A shallow embedding of
  \<^verbatim>\<open>backend/modules/restaurant/controllers/withdrawalController.js\<close>:
  the three mutating handlers (create, approve, reject) and the query construction of the
  two listing handlers.

  Conventions of the embedding.
  \<^item> Amounts are exact rationals (\<^typ>\<open>rat\<close>): the arithmetic of the handlers
    (sums, a 10 percent commission, \<open>Math.max\<close>) is read over exact numbers, not
    over IEEE doubles. On a number \<open>x\<close>, JavaScript's \<open>x || 0\<close> is \<open>x\<close>.
  \<^item> An ObjectId is the string its \<open>toString()\<close> gives. Dates are milliseconds
    since the epoch.
  \<^item> The collections are an in-memory store: the withdrawal requests and the orders are
    lists, wallets and restaurants are maps keyed by the restaurant's id. A database call
    itself never fails here; the handlers' catch-all (status 500) is modelled where the
    handler's own code raises (reading a field of a missing populated restaurant).
  \<^item> Values the environment supplies are arguments: the current time, the ids given to
    new documents, the time zone offset.
  \<^item> Logging and the best-effort e-mails change no state and are left out.
\<close>

subsection \<open>Data model\<close>

type_synonym objectId = string
type_synonym date = int

datatype request_status = Pending | Approved | Rejected | Processed

datatype transaction_status = TxnPending | TxnCompleted | TxnCancelled

datatype transaction_type = withdrawal | refund

fun status_name :: "request_status \<Rightarrow> string" where
  "status_name Pending = ''Pending''"
| "status_name Approved = ''Approved''"
| "status_name Rejected = ''Rejected''"
| "status_name Processed = ''Processed''"

record transaction =
  txn_id :: objectId
  txn_amount :: rat
  txn_type :: transaction_type
  txn_status :: transaction_status
  txn_description :: "string option"
  txn_processedAt :: "date option"

record wallet =
  totalBalance :: rat
  totalWithdrawn :: rat
  transactions :: "transaction list"

record withdrawalRequest =
  wr_id :: objectId
  restaurantId :: objectId
  amount :: rat
  status :: request_status
  restaurantName :: string
  restaurantIdString :: string
  transactionId :: "objectId option"
  processedAt :: "date option"
  processedBy :: "objectId option"
  rejectionReason :: "string option"

record pricing =
  subtotal :: "rat option"
  discount :: "rat option"

record order =
  order_restaurantId :: string
  order_status :: string
  deliveredAt :: "date option"
  tracking_delivered_timestamp :: "date option"
  createdAt :: "date option"
  order_pricing :: "pricing option"

text \<open>
  A restaurant, as the authentication middleware puts it on the request
  (\<open>req.restaurant\<close>) and as the Restaurant collection stores it. \<open>r_restaurantId\<close>
  is the external id (the field \<open>restaurantId\<close> of the document), not its \<open>_id\<close>.
\<close>

record restaurant =
  r_id :: "objectId option"
  r_name :: "string option"
  r_restaurantId :: "string option"

record db =
  withdrawalRequests :: "withdrawalRequest list"
  wallets :: "objectId \<rightharpoonup> wallet"
  orders :: "order list"
  restaurants :: "objectId \<rightharpoonup> restaurant"

text \<open>\<open>errorResponse(res, code, message)\<close> and \<open>successResponse(res, code, message, data)\<close>.\<close>

datatype 'a response = errorResponse nat string | successResponse nat string 'a

fun is_success :: "'a response \<Rightarrow> bool" where
  "is_success (successResponse c m x) = True"
| "is_success (errorResponse c m) = False"

text \<open>A client error is a response of the 4xx class.\<close>

fun is_client_error :: "'a response \<Rightarrow> bool" where
  "is_client_error (errorResponse c m) = (400 \<le> c \<and> c < 500)"
| "is_client_error (successResponse c m x) = False"

subsection \<open>JavaScript helpers\<close>

text \<open>\<open>a || b\<close> on strings that may be undefined: the empty string is falsy.\<close>

fun or_string :: "string option \<Rightarrow> string \<Rightarrow> string" where
  "or_string None b = b"
| "or_string (Some a) b = (if a = [] then b else a)"

text \<open>\<open>x || 0\<close> on a number that may be undefined.\<close>

fun or_zero :: "rat option \<Rightarrow> rat" where
  "or_zero None = 0"
| "or_zero (Some x) = x"

text \<open>
  \<open>req.body.amount\<close>, as JavaScript reads it: missing (\<open>undefined\<close>,
  \<open>null\<close> or the empty string, all falsy), a number, or a non-empty string. A string
  is given by the two numbers JavaScript takes from it, \<open>Number(s)\<close> (used by the
  comparison \<open>s <= 0\<close>) and \<open>parseFloat(s)\<close>; \<open>None\<close> is \<open>NaN\<close>.
\<close>

datatype body_amount = Missing | Number rat | Text "rat option" "rat option"

text \<open>\<open>!amount\<close>\<close>

fun falsy_amount :: "body_amount \<Rightarrow> bool" where
  "falsy_amount Missing = True"
| "falsy_amount (Number x) = (x = 0)"
| "falsy_amount (Text n p) = False"

text \<open>\<open>amount <= 0\<close>, evaluated only on a truthy amount; a comparison with \<open>NaN\<close> is false.\<close>

fun amount_le_zero :: "body_amount \<Rightarrow> bool" where
  "amount_le_zero Missing = False"
| "amount_le_zero (Number x) = (x \<le> 0)"
| "amount_le_zero (Text n p) = (case n of None \<Rightarrow> False | Some x \<Rightarrow> x \<le> 0)"

text \<open>\<open>parseFloat(amount)\<close>\<close>

fun parseFloat :: "body_amount \<Rightarrow> rat option" where
  "parseFloat Missing = None"
| "parseFloat (Number x) = Some x"
| "parseFloat (Text n p) = p"

fun startsWith :: "string \<Rightarrow> string \<Rightarrow> bool" where
  "startsWith s [] = True"
| "startsWith [] (p # ps) = False"
| "startsWith (c # cs) (p # ps) = (c = p \<and> startsWith cs ps)"

text \<open>\<open>String.prototype.includes\<close>.\<close>

fun includes_str :: "string \<Rightarrow> string \<Rightarrow> bool" where
  "includes_str [] p = (p = [])"
| "includes_str (c # cs) p = (startsWith (c # cs) p \<or> includes_str cs p)"

text \<open>
  The position of the first element that satisfies a predicate. A document loaded from a
  collection, and a subdocument found in an array, is identified by its position: writing
  to it (\<open>save()\<close>, an assignment to a field of the subdocument) updates that position.
\<close>

fun findIndex :: "('a \<Rightarrow> bool) \<Rightarrow> 'a list \<Rightarrow> nat option" where
  "findIndex P [] = None"
| "findIndex P (x # xs) = (if P x then Some 0 else map_option Suc (findIndex P xs))"

subsection \<open>The wallet model\<close>

text \<open>
  What \<open>addTransaction\<close> does to the totals of the wallet when the transaction it adds
  is Completed: a function from the transaction's type and amount and the pair
  (\<open>totalBalance\<close>, \<open>totalWithdrawn\<close>) to the new pair.
\<close>

type_synonym completed_effect = "transaction_type \<Rightarrow> rat \<Rightarrow> rat \<times> rat \<Rightarrow> rat \<times> rat"

text \<open>
  Modelled from the spec: \<open>RestaurantWallet.addTransaction\<close> (the wallet model,
  \<^verbatim>\<open>models/RestaurantWallet.js\<close>, is not among the sources). The specification says
  that it appends the transaction to the wallet's list; the controller uses the
  transaction it returns for its \<open>_id\<close>. The controller's comment says that it
  "only deducts when status is 'Completed'": a transaction of another status leaves the
  totals alone, and what a Completed one does to them is the parameter
  \<open>onCompleted\<close>.
\<close>

definition addTransaction ::
  "completed_effect \<Rightarrow> objectId \<Rightarrow> rat \<Rightarrow> transaction_type \<Rightarrow> transaction_status \<Rightarrow> string
     \<Rightarrow> wallet \<Rightarrow> transaction \<times> wallet" where
  "addTransaction onCompleted newId amt ty st descr w =
     (let t = \<lparr>txn_id = newId, txn_amount = amt, txn_type = ty, txn_status = st,
                txn_description = Some descr, txn_processedAt = None\<rparr>;
          w1 = w\<lparr>transactions := transactions w @ [t]\<rparr>
      in (t, if st = TxnCompleted
             then (case onCompleted ty amt (totalBalance w1, totalWithdrawn w1) of
                     (b, wd) \<Rightarrow> w1\<lparr>totalBalance := b, totalWithdrawn := wd\<rparr>)
             else w1))"

text \<open>
  Modelled from the spec: \<open>RestaurantWallet.findOrCreateByRestaurantId\<close> (same missing
  file). A wallet belongs to one restaurant; the restaurant's wallet is returned, and a
  restaurant that has none gets an empty one, stored at once.
\<close>

definition emptyWallet :: wallet where
  "emptyWallet = \<lparr>totalBalance = 0, totalWithdrawn = 0, transactions = []\<rparr>"

definition findOrCreateByRestaurantId :: "objectId \<Rightarrow> db \<Rightarrow> wallet \<times> db" where
  "findOrCreateByRestaurantId rid d =
     (case wallets d rid of
        Some w \<Rightarrow> (w, d)
      | None \<Rightarrow> (emptyWallet, d\<lparr>wallets := (wallets d)(rid \<mapsto> emptyWallet)\<rparr>))"

subsection \<open>The weekly cycle\<close>

text \<open>
  \<open>Date\<close> works in local time. Local time is modelled at a fixed offset \<open>tz\<close>
  (milliseconds) from UTC, without daylight saving. Day 0 of the epoch was a Thursday
  (\<open>getDay() = 4\<close>); \<open>setDate\<close> with a day outside the month moves into the
  neighbouring month, so it is arithmetic on the day number.
\<close>

definition msPerDay :: int where
  "msPerDay = 86400000"

definition localDay :: "int \<Rightarrow> date \<Rightarrow> int" where
  "localDay tz t = (t + tz) div msPerDay"

definition getDay :: "int \<Rightarrow> date \<Rightarrow> int" where
  "getDay tz t = (localDay tz t + 4) mod 7"

definition cycleStart :: "int \<Rightarrow> date \<Rightarrow> date" where
  "cycleStart tz now =
     (let currentDay = getDay tz now;
          daysFromMonday = (if currentDay = 0 then 6 else currentDay - 1)
      in (localDay tz now - daysFromMonday) * msPerDay - tz)"

definition cycleEnd :: "int \<Rightarrow> date \<Rightarrow> date" where
  "cycleEnd tz now = cycleStart tz now + 6 * msPerDay + (msPerDay - 1)"

text \<open>\<open>{ $gte: cycleStart, $lte: cycleEnd }\<close> on a date field that may be missing.\<close>

fun inCycle :: "int \<Rightarrow> date \<Rightarrow> date option \<Rightarrow> bool" where
  "inCycle tz now None = False"
| "inCycle tz now (Some t) = (cycleStart tz now \<le> t \<and> t \<le> cycleEnd tz now)"

subsection \<open>createWithdrawalRequest\<close>

text \<open>
  The query for the delivered orders of the cycle. The restaurant's id is an ObjectId, so
  \<open>restaurantIdVariations\<close> holds its string only (the second variation, the id
  parsed and printed again, is the same string).
\<close>

definition deliveredOrders :: "int \<Rightarrow> date \<Rightarrow> objectId \<Rightarrow> db \<Rightarrow> order list" where
  "deliveredOrders tz now rid d =
     filter (\<lambda>ord. order_status ord = ''delivered'' \<and>
                   (order_restaurantId ord \<in> set [rid] \<or> order_restaurantId ord = rid) \<and>
                   (inCycle tz now (deliveredAt ord) \<or>
                    inCycle tz now (tracking_delivered_timestamp ord) \<or>
                    inCycle tz now (createdAt ord)))
            (orders d)"

text \<open>\<open>(order.pricing?.subtotal || 0) - (order.pricing?.discount || 0)\<close>\<close>

definition foodPrice :: "order \<Rightarrow> rat" where
  "foodPrice ord =
     (case order_pricing ord of
        None \<Rightarrow> 0 - 0
      | Some p \<Rightarrow> or_zero (subtotal p) - or_zero (discount p))"

definition cyclePayout :: "order list \<Rightarrow> rat" where
  "cyclePayout os =
     foldl (\<lambda>sum ord.
              let defaultCommission = (foodPrice ord * 10) / 100
              in sum + max 0 (foodPrice ord - defaultCommission))
           0 os"

definition existingWithdrawals :: "objectId \<Rightarrow> db \<Rightarrow> withdrawalRequest list" where
  "existingWithdrawals rid d =
     filter (\<lambda>r. restaurantId r = rid \<and> status r \<in> set [Pending, Approved])
            (withdrawalRequests d)"

definition totalExistingWithdrawals :: "withdrawalRequest list \<Rightarrow> rat" where
  "totalExistingWithdrawals rs = foldl (\<lambda>sum request. sum + amount request) 0 rs"

definition effectiveAvailableBalance :: "int \<Rightarrow> date \<Rightarrow> objectId \<Rightarrow> db \<Rightarrow> wallet \<Rightarrow> rat" where
  "effectiveAvailableBalance tz now rid d w =
     (let walletAvailableBalance = totalBalance w;
          financeAvailableBalance =
            max 0 (cyclePayout (deliveredOrders tz now rid d)
                     - totalExistingWithdrawals (existingWithdrawals rid d))
      in max walletAvailableBalance financeAvailableBalance)"

text \<open>
  The handler. \<open>reqRestaurant\<close> is \<open>req.restaurant\<close>, \<open>reqAmount\<close> is
  \<open>req.body.amount\<close>. \<open>newRequestId\<close> and \<open>newTransactionId\<close> are the ids
  of the two documents the handler creates. The amount is checked twice, as in the
  source: as it came, before the wallet is looked up, and as \<open>parseFloat\<close> reads it,
  after. The message of the insufficient-balance error goes on with the available balance
  printed to two decimals; the model keeps its fixed beginning.
\<close>

definition createWithdrawalRequest ::
  "completed_effect \<Rightarrow> int \<Rightarrow> date \<Rightarrow> objectId \<Rightarrow> objectId \<Rightarrow> restaurant option
     \<Rightarrow> body_amount \<Rightarrow> db \<Rightarrow> withdrawalRequest response \<times> db" where
  "createWithdrawalRequest onCompleted tz now newRequestId newTransactionId reqRestaurant reqAmount d =
     (case reqRestaurant of
        None \<Rightarrow> (errorResponse 401 ''Restaurant authentication required'', d)
      | Some rest \<Rightarrow>
     (case r_id rest of
        None \<Rightarrow> (errorResponse 401 ''Restaurant authentication required'', d)
      | Some rid \<Rightarrow>
     if falsy_amount reqAmount \<or> amount_le_zero reqAmount
     then (errorResponse 400 ''Valid withdrawal amount is required'', d)
     else
     (case findOrCreateByRestaurantId rid d of (w, d1) \<Rightarrow>
     (case parseFloat reqAmount of
        None \<Rightarrow> (errorResponse 400 ''Valid withdrawal amount is required'', d1)
      | Some numericAmount \<Rightarrow>
     if numericAmount \<le> 0
     then (errorResponse 400 ''Valid withdrawal amount is required'', d1)
     else
     if numericAmount > effectiveAvailableBalance tz now rid d1 w
     then (errorResponse 400 ''Insufficient balance'', d1)
     else
     (case findIndex (\<lambda>r. restaurantId r = rid \<and> status r = Pending) (withdrawalRequests d1) of
        Some k \<Rightarrow> (errorResponse 400 ''You already have a pending withdrawal request'', d1)
      | None \<Rightarrow>
     (let restaurantDetails = restaurants d1 rid;
          withdrawalRequest =
            \<lparr>wr_id = newRequestId, restaurantId = rid, amount = numericAmount, status = Pending,
             restaurantName =
               or_string (case restaurantDetails of None \<Rightarrow> None | Some rd \<Rightarrow> r_name rd)
                 (or_string (r_name rest) ''Unknown''),
             restaurantIdString =
               or_string (case restaurantDetails of None \<Rightarrow> None | Some rd \<Rightarrow> r_restaurantId rd)
                 (or_string (r_restaurantId rest) rid),
             transactionId = None, processedAt = None, processedBy = None,
             rejectionReason = None\<rparr>;
          position = length (withdrawalRequests d1);
          d2 = d1\<lparr>withdrawalRequests := withdrawalRequests d1 @ [withdrawalRequest]\<rparr>
      in (case addTransaction onCompleted newTransactionId numericAmount withdrawal TxnPending
                 (''Withdrawal request created - Request ID: '' @ newRequestId) w of
            (txn, w1) \<Rightarrow>
     (let w2 = w1\<lparr>totalBalance := max 0 (totalBalance w1 - numericAmount),
                  totalWithdrawn := totalWithdrawn w1 + numericAmount\<rparr>;
          d3 = d2\<lparr>wallets := (wallets d2)(rid \<mapsto> w2)\<rparr>;
          withdrawalRequest1 = withdrawalRequest\<lparr>transactionId := Some (txn_id txn)\<rparr>;
          d4 = d3\<lparr>withdrawalRequests := (withdrawalRequests d3)[position := withdrawalRequest1]\<rparr>
      in (successResponse 201 ''Withdrawal request created successfully'' withdrawalRequest1,
          d4)))))))))"

subsection \<open>approveWithdrawalRequest and rejectWithdrawalRequest\<close>

text \<open>
  Both handlers look for the wallet transaction of the request in the same way: by the
  linked id (\<open>wallet.transactions.id(transactionId)\<close>) and, when that finds nothing, by
  the first Pending withdrawal whose description includes the request's id. The result is
  the position of the subdocument, which the handler then assigns to.
\<close>

definition findPendingTransaction :: "withdrawalRequest \<Rightarrow> wallet \<Rightarrow> nat option" where
  "findPendingTransaction wr w =
     (let byId = (case transactionId wr of
                    None \<Rightarrow> None
                  | Some tid \<Rightarrow> findIndex (\<lambda>t. txn_id t = tid) (transactions w))
      in case byId of
           Some i \<Rightarrow> Some i
         | None \<Rightarrow>
             findIndex (\<lambda>t. txn_type t = withdrawal \<and> txn_status t = TxnPending \<and>
                            (case txn_description t of
                               None \<Rightarrow> False
                             | Some s \<Rightarrow> includes_str s (wr_id wr)))
                       (transactions w))"

text \<open>
  \<open>reqAdmin\<close> is the \<open>_id\<close> of \<open>req.admin\<close> (\<open>None\<close>: no admin on the request,
  or one without \<open>_id\<close>), \<open>ident\<close> is \<open>req.params.id\<close>. \<open>populate("restaurantId")\<close>
  puts the restaurant's document in the place of its id, and \<open>null\<close> when the
  collection has no such document: the handler then raises on \<open>restaurantId._id\<close>, which
  its catch-all turns into the 500 response, before anything is written.
\<close>

definition approveWithdrawalRequest ::
  "completed_effect \<Rightarrow> date \<Rightarrow> objectId \<Rightarrow> objectId option \<Rightarrow> objectId \<Rightarrow> db
     \<Rightarrow> withdrawalRequest response \<times> db" where
  "approveWithdrawalRequest onCompleted now newTransactionId reqAdmin ident d =
     (case reqAdmin of
        None \<Rightarrow> (errorResponse 401 ''Admin authentication required'', d)
      | Some adminId \<Rightarrow>
     (case findIndex (\<lambda>r. wr_id r = ident) (withdrawalRequests d) of
        None \<Rightarrow> (errorResponse 404 ''Withdrawal request not found'', d)
      | Some k \<Rightarrow>
     (let withdrawalRequest = withdrawalRequests d ! k
      in if status withdrawalRequest \<noteq> Pending
         then (errorResponse 400
                 (''Withdrawal request is already '' @ status_name (status withdrawalRequest)), d)
         else
     (case restaurants d (restaurantId withdrawalRequest) of
        None \<Rightarrow> (errorResponse 500 ''Failed to approve withdrawal request'', d)
      | Some populated \<Rightarrow>
     (case findOrCreateByRestaurantId (restaurantId withdrawalRequest) d of (w, d1) \<Rightarrow>
     (let withdrawalRequest1 =
            withdrawalRequest\<lparr>status := Approved, processedAt := Some now,
                              processedBy := Some adminId\<rparr>;
          d2 = d1\<lparr>withdrawalRequests := (withdrawalRequests d1)[k := withdrawalRequest1]\<rparr>;
          w1 = (case findPendingTransaction withdrawalRequest1 w of
                  Some i \<Rightarrow>
                    w\<lparr>transactions := (transactions w)
                         [i := (transactions w ! i)\<lparr>txn_status := TxnCompleted,
                                                     txn_processedAt := Some now\<rparr>]\<rparr>
                | None \<Rightarrow>
                    snd (addTransaction onCompleted newTransactionId (amount withdrawalRequest1)
                           withdrawal TxnCompleted
                           (''Withdrawal request approved - Request ID: '' @ wr_id withdrawalRequest1)
                           w));
          d3 = d2\<lparr>wallets := (wallets d2)(restaurantId withdrawalRequest \<mapsto> w1)\<rparr>
      in (successResponse 200 ''Withdrawal request approved successfully'' withdrawalRequest1,
          d3)))))))"

text \<open>\<open>reqReason\<close> is \<open>req.body.rejectionReason\<close>; an empty string is falsy.\<close>

definition rejectWithdrawalRequest ::
  "completed_effect \<Rightarrow> date \<Rightarrow> objectId \<Rightarrow> objectId option \<Rightarrow> objectId \<Rightarrow> string option \<Rightarrow> db
     \<Rightarrow> withdrawalRequest response \<times> db" where
  "rejectWithdrawalRequest onCompleted now newTransactionId reqAdmin ident reqReason d =
     (case reqAdmin of
        None \<Rightarrow> (errorResponse 401 ''Admin authentication required'', d)
      | Some adminId \<Rightarrow>
     (case findIndex (\<lambda>r. wr_id r = ident) (withdrawalRequests d) of
        None \<Rightarrow> (errorResponse 404 ''Withdrawal request not found'', d)
      | Some k \<Rightarrow>
     (let withdrawalRequest = withdrawalRequests d ! k
      in if status withdrawalRequest \<noteq> Pending
         then (errorResponse 400
                 (''Withdrawal request is already '' @ status_name (status withdrawalRequest)), d)
         else
     (case restaurants d (restaurantId withdrawalRequest) of
        None \<Rightarrow> (errorResponse 500 ''Failed to reject withdrawal request'', d)
      | Some populated \<Rightarrow>
     (case findOrCreateByRestaurantId (restaurantId withdrawalRequest) d of (w, d1) \<Rightarrow>
     (let withdrawalRequest0 =
            withdrawalRequest\<lparr>status := Rejected, processedAt := Some now,
                              processedBy := Some adminId\<rparr>;
          withdrawalRequest1 =
            (case reqReason of
               None \<Rightarrow> withdrawalRequest0
             | Some reason \<Rightarrow>
                 if reason = [] then withdrawalRequest0
                 else withdrawalRequest0\<lparr>rejectionReason := Some reason\<rparr>);
          d2 = d1\<lparr>withdrawalRequests := (withdrawalRequests d1)[k := withdrawalRequest1]\<rparr>;
          w1 = (case findPendingTransaction withdrawalRequest1 w of
                  Some i \<Rightarrow>
                    w\<lparr>transactions := (transactions w)
                         [i := (transactions w ! i)\<lparr>txn_status := TxnCancelled,
                                                     txn_processedAt := Some now\<rparr>],
                      totalBalance := totalBalance w + amount withdrawalRequest1,
                      totalWithdrawn := max 0 (totalWithdrawn w - amount withdrawalRequest1)\<rparr>
                | None \<Rightarrow>
                    (let wa = snd (addTransaction onCompleted newTransactionId
                                     (amount withdrawalRequest1) refund TxnCompleted
                                     (''Withdrawal request rejected - Refund for Request ID: ''
                                        @ wr_id withdrawalRequest1)
                                     w)
                     in wa\<lparr>totalBalance := totalBalance wa + amount withdrawalRequest1,
                           totalWithdrawn :=
                             max 0 (totalWithdrawn wa - amount withdrawalRequest1)\<rparr>));
          d3 = d2\<lparr>wallets := (wallets d2)(restaurantId withdrawalRequest \<mapsto> w1)\<rparr>
      in (successResponse 200 ''Withdrawal request rejected successfully'' withdrawalRequest1,
          d3)))))))"

subsection \<open>The three operations as one step\<close>

datatype operation =
    Create objectId objectId "restaurant option" body_amount
  | Approve objectId "objectId option" objectId
  | Reject objectId "objectId option" objectId "string option"

fun perform ::
  "completed_effect \<Rightarrow> int \<Rightarrow> date \<Rightarrow> operation \<Rightarrow> db \<Rightarrow> withdrawalRequest response \<times> db" where
  "perform onCompleted tz now (Create newRequestId newTransactionId reqRestaurant reqAmount) d =
     createWithdrawalRequest onCompleted tz now newRequestId newTransactionId reqRestaurant
       reqAmount d"
| "perform onCompleted tz now (Approve newTransactionId reqAdmin ident) d =
     approveWithdrawalRequest onCompleted now newTransactionId reqAdmin ident d"
| "perform onCompleted tz now (Reject newTransactionId reqAdmin ident reqReason) d =
     rejectWithdrawalRequest onCompleted now newTransactionId reqAdmin ident reqReason d"

subsection \<open>The listings\<close>









subsection \<open>The specification's words\<close>








text \<open>The Pending requests of a restaurant, and the invariant that there is at most one.\<close>

definition pendingRequests :: "objectId \<Rightarrow> db \<Rightarrow> withdrawalRequest list" where
  "pendingRequests rid d =
     filter (\<lambda>r. restaurantId r = rid \<and> status r = Pending) (withdrawalRequests d)"

definition onePendingPerRestaurant :: "db \<Rightarrow> bool" where
  "onePendingPerRestaurant d =
     list_all (\<lambda>r. length (pendingRequests (restaurantId r) d) \<le> 1) (withdrawalRequests d)"

text \<open>The wallet of a restaurant, if it has one, has a balance that is not negative.\<close>

fun balanceNotNegative :: "wallet option \<Rightarrow> bool" where
  "balanceNotNegative None = True"
| "balanceNotNegative (Some w) = (0 \<le> totalBalance w)"

text \<open>Every stored request has a positive amount, as the create handler demands.\<close>

definition amountsPositive :: "db \<Rightarrow> bool" where
  "amountsPositive d = list_all (\<lambda>r. 0 < amount r) (withdrawalRequests d)"

text \<open>
  The Completed effect of \<open>addTransaction\<close> never makes a balance negative that was not.
\<close>

definition keepsNotNegative :: "completed_effect \<Rightarrow> bool" where
  "keepsNotNegative onCompleted =
     (\<forall>ty amt b wd. 0 \<le> b \<longrightarrow> 0 \<le> fst (onCompleted ty amt (b, wd)))"



subsection \<open>What a successful create writes\<close>

text \<open>The request document and the wallet transaction of a successful create.\<close>

definition createdRequest ::
  "restaurant \<Rightarrow> objectId \<Rightarrow> rat \<Rightarrow> objectId \<Rightarrow> objectId \<Rightarrow> db \<Rightarrow> withdrawalRequest" where
  "createdRequest rest rid a newRequestId newTransactionId d =
     \<lparr>wr_id = newRequestId, restaurantId = rid, amount = a, status = Pending,
      restaurantName =
        or_string (case restaurants d rid of None \<Rightarrow> None | Some rd \<Rightarrow> r_name rd)
          (or_string (r_name rest) ''Unknown''),
      restaurantIdString =
        or_string (case restaurants d rid of None \<Rightarrow> None | Some rd \<Rightarrow> r_restaurantId rd)
          (or_string (r_restaurantId rest) rid),
      transactionId = Some newTransactionId, processedAt = None, processedBy = None,
      rejectionReason = None\<rparr>"

definition createdTransaction :: "objectId \<Rightarrow> rat \<Rightarrow> objectId \<Rightarrow> transaction" where
  "createdTransaction newTransactionId a newRequestId =
     \<lparr>txn_id = newTransactionId, txn_amount = a, txn_type = withdrawal,
      txn_status = TxnPending,
      txn_description = Some (''Withdrawal request created - Request ID: '' @ newRequestId),
      txn_processedAt = None\<rparr>"

subsection \<open>What a successful approve or reject writes\<close>

definition approvedRequest :: "date \<Rightarrow> objectId \<Rightarrow> withdrawalRequest \<Rightarrow> withdrawalRequest" where
  "approvedRequest now adminId r =
     r\<lparr>status := Approved, processedAt := Some now, processedBy := Some adminId\<rparr>"

definition approvedWallet ::
  "completed_effect \<Rightarrow> date \<Rightarrow> objectId \<Rightarrow> withdrawalRequest \<Rightarrow> wallet \<Rightarrow> wallet" where
  "approvedWallet onCompleted now newTransactionId r w =
     (case findPendingTransaction r w of
        Some i \<Rightarrow>
          w\<lparr>transactions := (transactions w)
               [i := (transactions w ! i)\<lparr>txn_status := TxnCompleted,
                                           txn_processedAt := Some now\<rparr>]\<rparr>
      | None \<Rightarrow>
          snd (addTransaction onCompleted newTransactionId (amount r) withdrawal TxnCompleted
                 (''Withdrawal request approved - Request ID: '' @ wr_id r) w))"

definition rejectedRequest ::
  "date \<Rightarrow> objectId \<Rightarrow> string option \<Rightarrow> withdrawalRequest \<Rightarrow> withdrawalRequest" where
  "rejectedRequest now adminId reqReason r =
     (case reqReason of
        None \<Rightarrow> r\<lparr>status := Rejected, processedAt := Some now, processedBy := Some adminId\<rparr>
      | Some reason \<Rightarrow>
          if reason = []
          then r\<lparr>status := Rejected, processedAt := Some now, processedBy := Some adminId\<rparr>
          else r\<lparr>status := Rejected, processedAt := Some now, processedBy := Some adminId,
                 rejectionReason := Some reason\<rparr>)"

definition rejectedWallet ::
  "completed_effect \<Rightarrow> date \<Rightarrow> objectId \<Rightarrow> withdrawalRequest \<Rightarrow> wallet \<Rightarrow> wallet" where
  "rejectedWallet onCompleted now newTransactionId r w =
     (case findPendingTransaction r w of
        Some i \<Rightarrow>
          w\<lparr>transactions := (transactions w)
               [i := (transactions w ! i)\<lparr>txn_status := TxnCancelled,
                                           txn_processedAt := Some now\<rparr>],
            totalBalance := totalBalance w + amount r,
            totalWithdrawn := max 0 (totalWithdrawn w - amount r)\<rparr>
      | None \<Rightarrow>
          (let wa = snd (addTransaction onCompleted newTransactionId (amount r) refund
                           TxnCompleted
                           (''Withdrawal request rejected - Refund for Request ID: '' @ wr_id r)
                           w)
           in wa\<lparr>totalBalance := totalBalance wa + amount r,
                 totalWithdrawn := max 0 (totalWithdrawn wa - amount r)\<rparr>))"

subsection \<open>A concrete store\<close>

text \<open>
  One restaurant with one delivered order of the current week (subtotal 100, no
  discount) and a wallet with nothing in it. The time is Wednesday 10 January 2024, 12:00 UTC, at the
  offset of India (+5:30); the order was delivered the day before.
\<close>

definition demo_tz :: int where
  "demo_tz = 19800000"

definition demo_now :: date where
  "demo_now = 1704888000000"

definition demo_rid :: objectId where
  "demo_rid = ''650000000000000000000001''"

definition demo_request_id :: objectId where
  "demo_request_id = ''650000000000000000000a01''"

definition demo_txn_id :: objectId where
  "demo_txn_id = ''650000000000000000000b01''"

definition demo_txn_id2 :: objectId where
  "demo_txn_id2 = ''650000000000000000000b02''"

definition demo_admin :: objectId where
  "demo_admin = ''650000000000000000000c01''"

definition demo_restaurant :: restaurant where
  "demo_restaurant =
     \<lparr>r_id = Some demo_rid, r_name = Some ''Spice Hub'', r_restaurantId = Some ''REST-1''\<rparr>"

definition demo_order :: order where
  "demo_order =
     \<lparr>order_restaurantId = demo_rid, order_status = ''delivered'',
      deliveredAt = Some 1704800000000, tracking_delivered_timestamp = None,
      createdAt = Some 1704790000000,
      order_pricing = Some \<lparr>subtotal = Some 100, discount = None\<rparr>\<rparr>"

definition demo_db :: db where
  "demo_db =
     \<lparr>withdrawalRequests = [], wallets = [demo_rid \<mapsto> emptyWallet],
      orders = [demo_order], restaurants = [demo_rid \<mapsto> demo_restaurant]\<rparr>"

text \<open>The store after the restaurant has asked for 50: the request is Pending.\<close>

definition demo_request :: withdrawalRequest where
  "demo_request =
     \<lparr>wr_id = demo_request_id, restaurantId = demo_rid, amount = 50, status = Pending,
      restaurantName = ''Spice Hub'', restaurantIdString = ''REST-1'',
      transactionId = Some demo_txn_id, processedAt = None, processedBy = None,
      rejectionReason = None\<rparr>"

definition demo_transaction :: transaction where
  "demo_transaction =
     \<lparr>txn_id = demo_txn_id, txn_amount = 50, txn_type = withdrawal, txn_status = TxnPending,
      txn_description = Some (''Withdrawal request created - Request ID: '' @ demo_request_id),
      txn_processedAt = None\<rparr>"

definition demo_wallet_pending :: wallet where
  "demo_wallet_pending =
     \<lparr>totalBalance = 0, totalWithdrawn = 50, transactions = [demo_transaction]\<rparr>"

definition demo_db_pending :: db where
  "demo_db_pending =
     \<lparr>withdrawalRequests = [demo_request], wallets = [demo_rid \<mapsto> demo_wallet_pending],
      orders = [demo_order], restaurants = [demo_rid \<mapsto> demo_restaurant]\<rparr>"

text \<open>The store after an administrator has approved that request.\<close>

definition demo_db_approved :: db where
  "demo_db_approved =
     \<lparr>withdrawalRequests =
        [demo_request\<lparr>status := Approved, processedAt := Some demo_now,
                       processedBy := Some demo_admin\<rparr>],
      wallets =
        [demo_rid \<mapsto>
           \<lparr>totalBalance = 0, totalWithdrawn = 50,
            transactions = [demo_transaction\<lparr>txn_status := TxnCompleted,
                                              txn_processedAt := Some demo_now\<rparr>]\<rparr>],
      orders = [demo_order], restaurants = [demo_rid \<mapsto> demo_restaurant]\<rparr>"

text \<open>
  A store with a Pending request of 50 that has no wallet transaction: the restaurant's
  wallet is empty.
\<close>

definition demo_db_unlinked :: db where
  "demo_db_unlinked =
     \<lparr>withdrawalRequests = [demo_request\<lparr>transactionId := None\<rparr>],
      wallets = [demo_rid \<mapsto> emptyWallet], orders = [],
      restaurants = [demo_rid \<mapsto> demo_restaurant]\<rparr>"

text \<open>The Completed effect that leaves the totals alone.\<close>

definition noEffect :: completed_effect where
  "noEffect ty amt totals = totals"

lemmas demo_defs =
  demo_tz_def demo_now_def demo_rid_def demo_request_id_def demo_txn_id_def demo_txn_id2_def
  demo_admin_def demo_restaurant_def demo_order_def demo_db_def noEffect_def demo_request_def
  demo_transaction_def demo_wallet_pending_def demo_db_pending_def demo_db_approved_def
  demo_db_unlinked_def

lemmas eval_defs =
  findOrCreateByRestaurantId_def emptyWallet_def effectiveAvailableBalance_def cyclePayout_def
  deliveredOrders_def foodPrice_def totalExistingWithdrawals_def existingWithdrawals_def
  cycleStart_def cycleEnd_def getDay_def localDay_def msPerDay_def addTransaction_def
  findPendingTransaction_def Let_def

section \<open>Auxiliary facts\<close>

subsection \<open>Positions in a list\<close>

lemma findIndex_None: "(findIndex P xs = None) = (\<forall>x \<in> set xs. \<not> P x)"
  by (induction xs) auto

lemma findIndex_Some:
  "findIndex P xs = Some i \<Longrightarrow> i < length xs \<and> P (xs ! i) \<and> (\<forall>j < i. \<not> P (xs ! j))"
proof (induction xs arbitrary: i)
  case Nil
  then show ?case by simp
next
  case (Cons x xs)
  show ?case
  proof (cases "P x")
    case True
    with Cons.prems show ?thesis by simp
  next
    case False
    with Cons.prems obtain k where k: "findIndex P xs = Some k" "i = Suc k"
      by auto
    from Cons.IH [OF k(1)] False k(2) show ?thesis
      by (auto simp: nth_Cons split: nat.splits)
  qed
qed


subsection \<open>The week of the cycle\<close>









subsection \<open>Sums\<close>





subsection \<open>The wallet lookup\<close>

lemma findOrCreate_snd:
  "snd (findOrCreateByRestaurantId rid d) =
     d\<lparr>wallets := (wallets d)(rid \<mapsto> fst (findOrCreateByRestaurantId rid d))\<rparr>"
  by (auto simp: findOrCreateByRestaurantId_def fun_upd_idem split: option.splits)

lemma effective_depends:
  "withdrawalRequests d1 = withdrawalRequests d \<Longrightarrow> orders d1 = orders d \<Longrightarrow>
   effectiveAvailableBalance tz now rid d1 w = effectiveAvailableBalance tz now rid d w"
  by (simp add: effectiveAvailableBalance_def deliveredOrders_def existingWithdrawals_def)

lemma effective_nonneg: "0 \<le> effectiveAvailableBalance tz now rid d w"
  by (simp add: effectiveAvailableBalance_def Let_def)

subsection \<open>The create handler, branch by branch\<close>

lemma create_unfold:
  assumes "r_id rest = Some rid" and "0 < a"
      and "\<not> (falsy_amount ra \<or> amount_le_zero ra)" and "parseFloat ra = Some a"
  shows "createWithdrawalRequest oc tz now nr nt (Some rest) ra d =
    (let w = fst (findOrCreateByRestaurantId rid d);
         d1 = d\<lparr>wallets := (wallets d)(rid \<mapsto> w)\<rparr>
     in if a > effectiveAvailableBalance tz now rid d w
        then (errorResponse 400 ''Insufficient balance'', d1)
        else if \<exists>r \<in> set (withdrawalRequests d). restaurantId r = rid \<and> status r = Pending
        then (errorResponse 400 ''You already have a pending withdrawal request'', d1)
        else (successResponse 201 ''Withdrawal request created successfully''
                (createdRequest rest rid a nr nt d),
              d\<lparr>withdrawalRequests := withdrawalRequests d @ [createdRequest rest rid a nr nt d],
                wallets := (wallets d)(rid \<mapsto>
                   w\<lparr>transactions := transactions w @ [createdTransaction nt a nr],
                     totalBalance := max 0 (totalBalance w - a),
                     totalWithdrawn := totalWithdrawn w + a\<rparr>)\<rparr>))"
proof -
  define w where "w = fst (findOrCreateByRestaurantId rid d)"
  define d1 where "d1 = d\<lparr>wallets := (wallets d)(rid \<mapsto> w)\<rparr>"
  have f: "findOrCreateByRestaurantId rid d = (w, d1)"
    using findOrCreate_snd [of rid d] by (simp add: w_def d1_def prod_eq_iff)
  have eff: "effectiveAvailableBalance tz now rid d1 w = effectiveAvailableBalance tz now rid d w"
    by (rule effective_depends) (simp_all add: d1_def)
  have na: "\<not> a \<le> 0" using assms(2) by simp
  have step: "createWithdrawalRequest oc tz now nr nt (Some rest) ra d =
     (if a > effectiveAvailableBalance tz now rid d w
      then (errorResponse 400 ''Insufficient balance'', d1)
      else
      (case findIndex (\<lambda>r. restaurantId r = rid \<and> status r = Pending) (withdrawalRequests d) of
         Some k \<Rightarrow> (errorResponse 400 ''You already have a pending withdrawal request'', d1)
       | None \<Rightarrow>
           (successResponse 201 ''Withdrawal request created successfully''
              (createdRequest rest rid a nr nt d),
            d\<lparr>withdrawalRequests := withdrawalRequests d @ [createdRequest rest rid a nr nt d],
              wallets := (wallets d)(rid \<mapsto>
                 w\<lparr>transactions := transactions w @ [createdTransaction nt a nr],
                   totalBalance := max 0 (totalBalance w - a),
                   totalWithdrawn := totalWithdrawn w + a\<rparr>)\<rparr>)))"
    unfolding createWithdrawalRequest_def
    apply (simp only: option.case assms(1,3,4) na if_False f prod.case eff)
    apply (simp add: d1_def Let_def addTransaction_def createdRequest_def createdTransaction_def
                split: option.split)
    done
  show ?thesis
  proof (cases "findIndex (\<lambda>r. restaurantId r = rid \<and> status r = Pending) (withdrawalRequests d)")
    case None
    then have "\<not> (\<exists>r \<in> set (withdrawalRequests d). restaurantId r = rid \<and> status r = Pending)"
      by (simp add: findIndex_None)
    then show ?thesis
      unfolding step Let_def w_def [symmetric] d1_def [symmetric] None by auto
  next
    case (Some k)
    from findIndex_Some [OF Some]
    have "\<exists>r \<in> set (withdrawalRequests d). restaurantId r = rid \<and> status r = Pending"
      using nth_mem by blast
    then show ?thesis
      unfolding step Let_def w_def [symmetric] d1_def [symmetric] Some by auto
  qed
qed

subsection \<open>The approve and reject handlers, branch by branch\<close>

lemma findPending_cong:
  "transactionId r1 = transactionId r \<Longrightarrow> wr_id r1 = wr_id r \<Longrightarrow>
   findPendingTransaction r1 w = findPendingTransaction r w"
  by (simp add: findPendingTransaction_def split: option.split)

lemma approve_unfold:
  "approveWithdrawalRequest oc now nt reqAdmin ident d =
     (case reqAdmin of
        None \<Rightarrow> (errorResponse 401 ''Admin authentication required'', d)
      | Some adminId \<Rightarrow>
     (case findIndex (\<lambda>r. wr_id r = ident) (withdrawalRequests d) of
        None \<Rightarrow> (errorResponse 404 ''Withdrawal request not found'', d)
      | Some k \<Rightarrow>
         if status (withdrawalRequests d ! k) \<noteq> Pending
         then (errorResponse 400
                 (''Withdrawal request is already '' @ status_name (status (withdrawalRequests d ! k))), d)
         else
     (case restaurants d (restaurantId (withdrawalRequests d ! k)) of
        None \<Rightarrow> (errorResponse 500 ''Failed to approve withdrawal request'', d)
      | Some populated \<Rightarrow>
         (successResponse 200 ''Withdrawal request approved successfully''
            (approvedRequest now adminId (withdrawalRequests d ! k)),
          d\<lparr>withdrawalRequests :=
              (withdrawalRequests d)[k := approvedRequest now adminId (withdrawalRequests d ! k)],
            wallets := (wallets d)(restaurantId (withdrawalRequests d ! k) \<mapsto>
              approvedWallet oc now nt (withdrawalRequests d ! k)
                (fst (findOrCreateByRestaurantId (restaurantId (withdrawalRequests d ! k)) d)))\<rparr>))))"
proof -
  have f: "\<And>rid. findOrCreateByRestaurantId rid d =
            (fst (findOrCreateByRestaurantId rid d),
             d\<lparr>wallets := (wallets d)(rid \<mapsto> fst (findOrCreateByRestaurantId rid d))\<rparr>)"
    using findOrCreate_snd by (simp add: prod_eq_iff)
  have p: "\<And>r w adminId. findPendingTransaction
             (r\<lparr>status := Approved, processedAt := Some now, processedBy := Some adminId\<rparr>) w
           = findPendingTransaction r w"
    by (rule findPending_cong) simp_all
  show ?thesis
    unfolding approveWithdrawalRequest_def Let_def
    apply (subst f)
    apply (simp only: prod.case)
    apply (simp add: approvedRequest_def approvedWallet_def p split: option.split)
    done
qed

lemma reject_unfold:
  "rejectWithdrawalRequest oc now nt reqAdmin ident reqReason d =
     (case reqAdmin of
        None \<Rightarrow> (errorResponse 401 ''Admin authentication required'', d)
      | Some adminId \<Rightarrow>
     (case findIndex (\<lambda>r. wr_id r = ident) (withdrawalRequests d) of
        None \<Rightarrow> (errorResponse 404 ''Withdrawal request not found'', d)
      | Some k \<Rightarrow>
         if status (withdrawalRequests d ! k) \<noteq> Pending
         then (errorResponse 400
                 (''Withdrawal request is already '' @ status_name (status (withdrawalRequests d ! k))), d)
         else
     (case restaurants d (restaurantId (withdrawalRequests d ! k)) of
        None \<Rightarrow> (errorResponse 500 ''Failed to reject withdrawal request'', d)
      | Some populated \<Rightarrow>
         (successResponse 200 ''Withdrawal request rejected successfully''
            (rejectedRequest now adminId reqReason (withdrawalRequests d ! k)),
          d\<lparr>withdrawalRequests :=
              (withdrawalRequests d)[k := rejectedRequest now adminId reqReason (withdrawalRequests d ! k)],
            wallets := (wallets d)(restaurantId (withdrawalRequests d ! k) \<mapsto>
              rejectedWallet oc now nt (withdrawalRequests d ! k)
                (fst (findOrCreateByRestaurantId (restaurantId (withdrawalRequests d ! k)) d)))\<rparr>))))"
proof -
  have f: "\<And>rid. findOrCreateByRestaurantId rid d =
            (fst (findOrCreateByRestaurantId rid d),
             d\<lparr>wallets := (wallets d)(rid \<mapsto> fst (findOrCreateByRestaurantId rid d))\<rparr>)"
    using findOrCreate_snd by (simp add: prod_eq_iff)
  have p: "\<And>r w adminId. findPendingTransaction (rejectedRequest now adminId reqReason r) w
           = findPendingTransaction r w"
    by (rule findPending_cong) (simp_all add: rejectedRequest_def split: option.split)
  have a: "\<And>r adminId. amount (rejectedRequest now adminId reqReason r) = amount r"
       "\<And>r adminId. wr_id (rejectedRequest now adminId reqReason r) = wr_id r"
    by (simp_all add: rejectedRequest_def split: option.split)
  have r: "\<And>r adminId. (case reqReason of
               None \<Rightarrow> r\<lparr>status := Rejected, processedAt := Some now, processedBy := Some adminId\<rparr>
             | Some reason \<Rightarrow>
                 if reason = [] then r\<lparr>status := Rejected, processedAt := Some now, processedBy := Some adminId\<rparr>
                 else r\<lparr>status := Rejected, processedAt := Some now, processedBy := Some adminId\<rparr>
                        \<lparr>rejectionReason := Some reason\<rparr>) = rejectedRequest now adminId reqReason r"
    by (simp add: rejectedRequest_def split: option.split)
  show ?thesis
    unfolding rejectWithdrawalRequest_def Let_def
    apply (subst f)
    apply (simp only: prod.case r)
    apply (simp add: rejectedWallet_def p a Let_def split: option.split)
    done
qed

subsection \<open>The outcomes of the three handlers\<close>

lemma create_early_errors:
  "reqRestaurant = None \<or> (\<exists>rest. reqRestaurant = Some rest \<and> r_id rest = None) \<or>
   falsy_amount reqAmount \<or> amount_le_zero reqAmount \<Longrightarrow>
   is_client_error (fst (createWithdrawalRequest oc tz now nr nt reqRestaurant reqAmount d)) \<and>
   snd (createWithdrawalRequest oc tz now nr nt reqRestaurant reqAmount d) = d"
  by (auto simp: createWithdrawalRequest_def split: option.splits)

text \<open>The outcomes of create: nothing written, only the wallet looked up, or the full write.\<close>

lemma create_cases:
  obtains
    (early) "is_client_error (fst (createWithdrawalRequest oc tz now nr nt reqRestaurant reqAmount d))"
            "snd (createWithdrawalRequest oc tz now nr nt reqRestaurant reqAmount d) = d"
  | (refused) rest rid where "reqRestaurant = Some rest" "r_id rest = Some rid"
            "is_client_error (fst (createWithdrawalRequest oc tz now nr nt reqRestaurant reqAmount d))"
            "snd (createWithdrawalRequest oc tz now nr nt reqRestaurant reqAmount d) =
               d\<lparr>wallets := (wallets d)(rid \<mapsto> fst (findOrCreateByRestaurantId rid d))\<rparr>"
  | (created) rest rid a where "reqRestaurant = Some rest" "r_id rest = Some rid"
            "parseFloat reqAmount = Some a" "0 < a"
            "a \<le> effectiveAvailableBalance tz now rid d (fst (findOrCreateByRestaurantId rid d))"
            "\<not> (\<exists>r \<in> set (withdrawalRequests d). restaurantId r = rid \<and> status r = Pending)"
            "createWithdrawalRequest oc tz now nr nt reqRestaurant reqAmount d =
               (successResponse 201 ''Withdrawal request created successfully''
                  (createdRequest rest rid a nr nt d),
                d\<lparr>withdrawalRequests := withdrawalRequests d @ [createdRequest rest rid a nr nt d],
                  wallets := (wallets d)(rid \<mapsto>
                    (fst (findOrCreateByRestaurantId rid d))
                      \<lparr>transactions := transactions (fst (findOrCreateByRestaurantId rid d))
                                         @ [createdTransaction nt a nr],
                       totalBalance := max 0 (totalBalance (fst (findOrCreateByRestaurantId rid d)) - a),
                       totalWithdrawn := totalWithdrawn (fst (findOrCreateByRestaurantId rid d)) + a\<rparr>)\<rparr>)"
proof (cases "reqRestaurant = None \<or> (\<exists>rest. reqRestaurant = Some rest \<and> r_id rest = None) \<or>
   falsy_amount reqAmount \<or> amount_le_zero reqAmount")
  case True
  from create_early_errors [OF True]
  have "is_client_error (fst (createWithdrawalRequest oc tz now nr nt reqRestaurant reqAmount d))"
    and "snd (createWithdrawalRequest oc tz now nr nt reqRestaurant reqAmount d) = d"
    by simp_all
  then show ?thesis by (rule early)
next
  case False
  then obtain rest where r1: "reqRestaurant = Some rest" and "r_id rest \<noteq> None"
    by (cases reqRestaurant) simp_all
  then obtain rid where r2: "r_id rest = Some rid"
    by (cases "r_id rest") simp_all
  from False have r3: "\<not> (falsy_amount reqAmount \<or> amount_le_zero reqAmount)"
    by simp
  let ?w = "fst (findOrCreateByRestaurantId rid d)"
  let ?d1 = "d\<lparr>wallets := (wallets d)(rid \<mapsto> ?w)\<rparr>"
  show ?thesis
  proof (cases "case parseFloat reqAmount of None \<Rightarrow> True | Some a \<Rightarrow> a \<le> 0")
    case True
    have "createWithdrawalRequest oc tz now nr nt reqRestaurant reqAmount d
            = (errorResponse 400 ''Valid withdrawal amount is required'', ?d1)"
    proof -
      define w0 where "w0 = fst (findOrCreateByRestaurantId rid d)"
      define d0 where "d0 = d\<lparr>wallets := (wallets d)(rid \<mapsto> w0)\<rparr>"
      have f: "findOrCreateByRestaurantId rid d = (w0, d0)"
        using findOrCreate_snd [of rid d] by (simp add: w0_def d0_def prod_eq_iff)
      have "createWithdrawalRequest oc tz now nr nt reqRestaurant reqAmount d
              = (errorResponse 400 ''Valid withdrawal amount is required'', d0)"
      proof (cases "parseFloat reqAmount")
        case None
        show ?thesis
          unfolding createWithdrawalRequest_def r1
          by (simp only: option.case r2 r3 if_False f prod.case None)
      next
        case (Some a)
        with True have "a \<le> 0" by simp
        then show ?thesis
          unfolding createWithdrawalRequest_def r1
          by (simp only: option.case r2 r3 if_False f prod.case Some if_True)
      qed
      then show ?thesis by (simp only: d0_def w0_def)
    qed
    then have "is_client_error (fst (createWithdrawalRequest oc tz now nr nt reqRestaurant reqAmount d))"
      and "snd (createWithdrawalRequest oc tz now nr nt reqRestaurant reqAmount d) = ?d1"
      by simp_all
    with r1 r2 show ?thesis
      by (intro refused [of rest rid]) simp_all
  next
    case False
    then obtain a where r4: "parseFloat reqAmount = Some a" "0 < a"
      by (cases "parseFloat reqAmount") auto
    note u = create_unfold [OF r2 r4(2) r3 r4(1), of oc tz now nr nt d, unfolded Let_def]
    consider (over) "a > effectiveAvailableBalance tz now rid d ?w"
      | (pending) "\<not> a > effectiveAvailableBalance tz now rid d ?w"
          "\<exists>r \<in> set (withdrawalRequests d). restaurantId r = rid \<and> status r = Pending"
      | (ok) "\<not> a > effectiveAvailableBalance tz now rid d ?w"
          "\<not> (\<exists>r \<in> set (withdrawalRequests d). restaurantId r = rid \<and> status r = Pending)"
      by blast
    then show ?thesis
    proof cases
      case over
      have "createWithdrawalRequest oc tz now nr nt reqRestaurant reqAmount d
              = (errorResponse 400 ''Insufficient balance'', ?d1)"
        unfolding r1 u using over by (simp only: if_True)
      then have "is_client_error (fst (createWithdrawalRequest oc tz now nr nt reqRestaurant reqAmount d))"
        and "snd (createWithdrawalRequest oc tz now nr nt reqRestaurant reqAmount d) = ?d1"
        by simp_all
      with r1 r2 show ?thesis
        by (intro refused [of rest rid]) simp_all
    next
      case pending
      have "createWithdrawalRequest oc tz now nr nt reqRestaurant reqAmount d
              = (errorResponse 400 ''You already have a pending withdrawal request'', ?d1)"
        unfolding r1 u using pending by (simp only: if_True if_False)
      then have "is_client_error (fst (createWithdrawalRequest oc tz now nr nt reqRestaurant reqAmount d))"
        and "snd (createWithdrawalRequest oc tz now nr nt reqRestaurant reqAmount d) = ?d1"
        by simp_all
      with r1 r2 show ?thesis
        by (intro refused [of rest rid]) simp_all
    next
      case ok
      have "createWithdrawalRequest oc tz now nr nt reqRestaurant reqAmount d =
                 (successResponse 201 ''Withdrawal request created successfully''
                    (createdRequest rest rid a nr nt d),
                  d\<lparr>withdrawalRequests := withdrawalRequests d @ [createdRequest rest rid a nr nt d],
                    wallets := (wallets d)(rid \<mapsto>
                      ?w\<lparr>transactions := transactions ?w @ [createdTransaction nt a nr],
                         totalBalance := max 0 (totalBalance ?w - a),
                         totalWithdrawn := totalWithdrawn ?w + a\<rparr>)\<rparr>)"
        unfolding r1 u using ok by (simp only: if_False)
      moreover from ok(1) have "a \<le> effectiveAvailableBalance tz now rid d ?w"
        by simp
      ultimately show ?thesis
        using r1 r2 r4 ok(2) by (intro created [of rest rid a])
    qed
  qed
qed

lemma approve_cases:
  obtains
    (failed) "\<not> is_success (fst (approveWithdrawalRequest oc now nt reqAdmin ident d))"
             "snd (approveWithdrawalRequest oc now nt reqAdmin ident d) = d"
  | (approved) adm k p where "reqAdmin = Some adm"
      "findIndex (\<lambda>r. wr_id r = ident) (withdrawalRequests d) = Some k"
      "status (withdrawalRequests d ! k) = Pending"
      "restaurants d (restaurantId (withdrawalRequests d ! k)) = Some p"
      "approveWithdrawalRequest oc now nt reqAdmin ident d =
         (successResponse 200 ''Withdrawal request approved successfully''
            (approvedRequest now adm (withdrawalRequests d ! k)),
          d\<lparr>withdrawalRequests :=
              (withdrawalRequests d)[k := approvedRequest now adm (withdrawalRequests d ! k)],
            wallets := (wallets d)(restaurantId (withdrawalRequests d ! k) \<mapsto>
              approvedWallet oc now nt (withdrawalRequests d ! k)
                (fst (findOrCreateByRestaurantId (restaurantId (withdrawalRequests d ! k)) d)))\<rparr>)"
proof (cases reqAdmin)
  case None
  then show ?thesis by (intro failed) (simp_all add: approve_unfold)
next
  case adm: (Some adm)
  show ?thesis
  proof (cases "findIndex (\<lambda>r. wr_id r = ident) (withdrawalRequests d)")
    case None
    with adm show ?thesis by (intro failed) (simp_all add: approve_unfold)
  next
    case k: (Some k)
    show ?thesis
    proof (cases "status (withdrawalRequests d ! k) = Pending")
      case False
      with adm k show ?thesis by (intro failed) (simp_all add: approve_unfold)
    next
      case pend: True
      show ?thesis
      proof (cases "restaurants d (restaurantId (withdrawalRequests d ! k))")
        case None
        with adm k pend show ?thesis by (intro failed) (simp_all add: approve_unfold)
      next
        case (Some p)
        with adm k pend show ?thesis
          by (intro approved [of adm k p]) (simp_all add: approve_unfold)
      qed
    qed
  qed
qed

lemma reject_cases:
  obtains
    (failed) "\<not> is_success (fst (rejectWithdrawalRequest oc now nt reqAdmin ident reqReason d))"
             "snd (rejectWithdrawalRequest oc now nt reqAdmin ident reqReason d) = d"
  | (rejected) adm k p where "reqAdmin = Some adm"
      "findIndex (\<lambda>r. wr_id r = ident) (withdrawalRequests d) = Some k"
      "status (withdrawalRequests d ! k) = Pending"
      "restaurants d (restaurantId (withdrawalRequests d ! k)) = Some p"
      "rejectWithdrawalRequest oc now nt reqAdmin ident reqReason d =
         (successResponse 200 ''Withdrawal request rejected successfully''
            (rejectedRequest now adm reqReason (withdrawalRequests d ! k)),
          d\<lparr>withdrawalRequests :=
              (withdrawalRequests d)[k := rejectedRequest now adm reqReason (withdrawalRequests d ! k)],
            wallets := (wallets d)(restaurantId (withdrawalRequests d ! k) \<mapsto>
              rejectedWallet oc now nt (withdrawalRequests d ! k)
                (fst (findOrCreateByRestaurantId (restaurantId (withdrawalRequests d ! k)) d)))\<rparr>)"
proof (cases reqAdmin)
  case None
  then show ?thesis by (intro failed) (simp_all add: reject_unfold)
next
  case adm: (Some adm)
  show ?thesis
  proof (cases "findIndex (\<lambda>r. wr_id r = ident) (withdrawalRequests d)")
    case None
    with adm show ?thesis by (intro failed) (simp_all add: reject_unfold)
  next
    case k: (Some k)
    show ?thesis
    proof (cases "status (withdrawalRequests d ! k) = Pending")
      case False
      with adm k show ?thesis by (intro failed) (simp_all add: reject_unfold)
    next
      case pend: True
      show ?thesis
      proof (cases "restaurants d (restaurantId (withdrawalRequests d ! k))")
        case None
        with adm k pend show ?thesis by (intro failed) (simp_all add: reject_unfold)
      next
        case (Some p)
        with adm k pend show ?thesis
          by (intro rejected [of adm k p]) (simp_all add: reject_unfold)
      qed
    qed
  qed
qed

subsection \<open>Pending requests\<close>

lemma onePending_iff:
  "onePendingPerRestaurant d = (\<forall>rid. length (pendingRequests rid d) \<le> 1)"
proof
  assume inv: "onePendingPerRestaurant d"
  show "\<forall>rid. length (pendingRequests rid d) \<le> 1"
  proof
    fix rid
    show "length (pendingRequests rid d) \<le> 1"
    proof (cases "pendingRequests rid d")
      case Nil
      then show ?thesis by simp
    next
      case (Cons r rs)
      then have "r \<in> set (pendingRequests rid d)" by simp
      then have "r \<in> set (withdrawalRequests d)" and "restaurantId r = rid"
        by (simp_all add: pendingRequests_def)
      with inv show ?thesis
        by (auto simp: onePendingPerRestaurant_def list_all_iff)
    qed
  qed
next
  assume "\<forall>rid. length (pendingRequests rid d) \<le> 1"
  then show "onePendingPerRestaurant d"
    by (simp add: onePendingPerRestaurant_def list_all_iff)
qed

lemma filter_update_le:
  "\<not> P y \<Longrightarrow> length (filter P (xs[k := y])) \<le> length (filter P xs)"
proof (induction xs arbitrary: k)
  case Nil
  then show ?case by simp
next
  case (Cons x xs)
  then show ?case
    by (cases k) (auto simp: le_SucI)
qed

lemma pending_after_update:
  assumes "withdrawalRequests d' = (withdrawalRequests d)[k := r1]" and "status r1 \<noteq> Pending"
  shows "length (pendingRequests rid d') \<le> length (pendingRequests rid d)"
  using assms by (simp add: pendingRequests_def filter_update_le)

lemma pending_after_create:
  assumes "withdrawalRequests d' = withdrawalRequests d @ [r1]"
      and "\<not> (\<exists>r \<in> set (withdrawalRequests d). restaurantId r = rid \<and> status r = Pending)"
      and "restaurantId r1 = rid"
  shows "length (pendingRequests rid' d') \<le> max 1 (length (pendingRequests rid' d))"
proof (cases "rid' = rid")
  case True
  with assms(2) have "pendingRequests rid' d = []"
    by (auto simp: pendingRequests_def filter_empty_conv)
  with assms(1) show ?thesis by (simp add: pendingRequests_def)
next
  case False
  with assms(1,3) show ?thesis by (simp add: pendingRequests_def)
qed

lemma pending_same:
  "withdrawalRequests d' = withdrawalRequests d \<Longrightarrow> pendingRequests rid d' = pendingRequests rid d"
  by (simp add: pendingRequests_def)

lemma perform_keeps_onePending:
  assumes "onePendingPerRestaurant d"
  shows "onePendingPerRestaurant (snd (perform oc tz now opn d))"
proof -
  from assms have inv: "\<And>rid. length (pendingRequests rid d) \<le> 1"
    by (simp add: onePending_iff)
  have "length (pendingRequests rid (snd (perform oc tz now opn d))) \<le> 1" for rid
  proof (cases opn)
    case (Create nr nt rr ra)
    show ?thesis
    proof (cases rule: create_cases [of oc tz now nr nt rr ra d])
      case early
      with Create inv show ?thesis by simp
    next
      case (refused rest rid0)
      then have "withdrawalRequests (snd (perform oc tz now opn d)) = withdrawalRequests d"
        using Create by simp
      from pending_same [OF this] inv show ?thesis by simp
    next
      case (created rest rid0 a)
      have r: "restaurantId (createdRequest rest rid0 a nr nt d) = rid0"
        by (simp add: createdRequest_def)
      have "withdrawalRequests (snd (perform oc tz now opn d))
              = withdrawalRequests d @ [createdRequest rest rid0 a nr nt d]"
        using Create created(7) by simp
      from pending_after_create [OF this created(6) r, of rid] inv [of rid]
      show ?thesis by simp
    qed
  next
    case (Approve nt adm ident)
    show ?thesis
    proof (cases rule: approve_cases [of oc now nt adm ident d])
      case failed
      with Approve inv show ?thesis by simp
    next
      case (approved a k p)
      have s: "status (approvedRequest now a (withdrawalRequests d ! k)) \<noteq> Pending"
        by (simp add: approvedRequest_def)
      have "withdrawalRequests (snd (perform oc tz now opn d))
              = (withdrawalRequests d)[k := approvedRequest now a (withdrawalRequests d ! k)]"
        using Approve approved(5) by simp
      from pending_after_update [OF this s, of rid] inv [of rid]
      show ?thesis by simp
    qed
  next
    case (Reject nt adm ident reason)
    show ?thesis
    proof (cases rule: reject_cases [of oc now nt adm ident reason d])
      case failed
      with Reject inv show ?thesis by simp
    next
      case (rejected a k p)
      have s: "status (rejectedRequest now a reason (withdrawalRequests d ! k)) \<noteq> Pending"
        by (simp add: rejectedRequest_def split: option.split)
      have "withdrawalRequests (snd (perform oc tz now opn d))
              = (withdrawalRequests d)[k := rejectedRequest now a reason (withdrawalRequests d ! k)]"
        using Reject rejected(5) by simp
      from pending_after_update [OF this s, of rid] inv [of rid]
      show ?thesis by simp
    qed
  qed
  then show ?thesis by (simp add: onePending_iff)
qed

subsection \<open>Lookup by id\<close>


subsection \<open>The wallet after approve and reject\<close>




lemma approvedWallet_found:
  "findPendingTransaction r w = Some i \<Longrightarrow>
   approvedWallet oc now nt r w =
     w\<lparr>transactions := (transactions w)
          [i := (transactions w ! i)\<lparr>txn_status := TxnCompleted, txn_processedAt := Some now\<rparr>]\<rparr>"
  by (simp add: approvedWallet_def)

lemma approvedWallet_new:
  "findPendingTransaction r w = None \<Longrightarrow>
   approvedWallet oc now nt r w =
     w\<lparr>transactions := transactions w @
          [\<lparr>txn_id = nt, txn_amount = amount r, txn_type = withdrawal,
            txn_status = TxnCompleted,
            txn_description = Some (''Withdrawal request approved - Request ID: '' @ wr_id r),
            txn_processedAt = None\<rparr>],
       totalBalance := fst (oc withdrawal (amount r) (totalBalance w, totalWithdrawn w)),
       totalWithdrawn := snd (oc withdrawal (amount r) (totalBalance w, totalWithdrawn w))\<rparr>"
  by (simp add: approvedWallet_def addTransaction_def Let_def split_beta)

lemma rejectedWallet_found:
  "findPendingTransaction r w = Some i \<Longrightarrow>
   rejectedWallet oc now nt r w =
     w\<lparr>transactions := (transactions w)
          [i := (transactions w ! i)\<lparr>txn_status := TxnCancelled, txn_processedAt := Some now\<rparr>],
       totalBalance := totalBalance w + amount r,
       totalWithdrawn := max 0 (totalWithdrawn w - amount r)\<rparr>"
  by (simp add: rejectedWallet_def)

lemma rejectedWallet_new:
  "findPendingTransaction r w = None \<Longrightarrow>
   rejectedWallet oc now nt r w =
     w\<lparr>transactions := transactions w @
          [\<lparr>txn_id = nt, txn_amount = amount r, txn_type = refund,
            txn_status = TxnCompleted,
            txn_description =
              Some (''Withdrawal request rejected - Refund for Request ID: '' @ wr_id r),
            txn_processedAt = None\<rparr>],
       totalBalance := fst (oc refund (amount r) (totalBalance w, totalWithdrawn w)) + amount r,
       totalWithdrawn :=
         max 0 (snd (oc refund (amount r) (totalBalance w, totalWithdrawn w)) - amount r)\<rparr>"
  by (simp add: rejectedWallet_def addTransaction_def Let_def split_beta)

subsection \<open>Balances and amounts\<close>

lemma findOrCreate_fst_nonneg:
  "balanceNotNegative (wallets d rid) \<Longrightarrow> 0 \<le> totalBalance (fst (findOrCreateByRestaurantId rid d))"
  by (cases "wallets d rid") (simp_all add: findOrCreateByRestaurantId_def emptyWallet_def)

lemma approvedWallet_nonneg:
  assumes "keepsNotNegative oc" and "0 \<le> totalBalance w"
  shows "0 \<le> totalBalance (approvedWallet oc now nt r w)"
proof (cases "findPendingTransaction r w")
  case None
  from assms have "0 \<le> fst (oc withdrawal (amount r) (totalBalance w, totalWithdrawn w))"
    by (simp add: keepsNotNegative_def)
  with None show ?thesis by (simp add: approvedWallet_new)
next
  case (Some i)
  with assms(2) show ?thesis by (simp add: approvedWallet_found)
qed

lemma rejectedWallet_nonneg:
  assumes "keepsNotNegative oc" and "0 \<le> totalBalance w" and "0 < amount r"
  shows "0 \<le> totalBalance (rejectedWallet oc now nt r w)"
proof (cases "findPendingTransaction r w")
  case None
  from assms have "0 \<le> fst (oc refund (amount r) (totalBalance w, totalWithdrawn w))"
    by (simp add: keepsNotNegative_def)
  with None assms(3) show ?thesis by (simp add: rejectedWallet_new)
next
  case (Some i)
  with assms(2,3) show ?thesis by (simp add: rejectedWallet_found)
qed

lemma amountsPositive_update:
  assumes "amountsPositive d" and "withdrawalRequests d' = (withdrawalRequests d)[k := r1]"
      and "0 < amount r1"
  shows "amountsPositive d'"
  using assms by (auto simp: amountsPositive_def list_all_iff dest!: set_update_subset_insert [THEN subsetD])


subsection \<open>The status filter\<close>



section \<open>The claims\<close>

text \<open>
  C1. A create call of an authenticated restaurant whose amount, as \<open>parseFloat\<close>
  reads it, exceeds the effective available balance (computed on the restaurant's wallet,
  an empty one if it has none) is answered with a client error, and the collection of
  withdrawal requests is left as it was. When the amount is sent as a number, the error is
  400 "Insufficient balance".
\<close>

theorem create_over_balance_rejected:
  assumes "r_id rest = Some rid"
      and "parseFloat reqAmount = Some a"
      and "a > effectiveAvailableBalance tz now rid d (fst (findOrCreateByRestaurantId rid d))"
  shows "is_client_error
           (fst (createWithdrawalRequest oc tz now nr nt (Some rest) reqAmount d)) \<and>
         withdrawalRequests
           (snd (createWithdrawalRequest oc tz now nr nt (Some rest) reqAmount d))
           = withdrawalRequests d \<and>
         fst (createWithdrawalRequest oc tz now nr nt (Some rest) (Number a) d)
           = errorResponse 400 ''Insufficient balance''"
proof -
  have "0 \<le> effectiveAvailableBalance tz now rid d (fst (findOrCreateByRestaurantId rid d))"
    by (rule effective_nonneg)
  with assms(3) have pos: "0 < a" by simp
  then have n: "\<not> (falsy_amount (Number a) \<or> amount_le_zero (Number a))"
    and p: "parseFloat (Number a) = Some a"
    by simp_all
  from create_unfold [OF assms(1) pos n p, of oc tz now nr nt d] assms(3)
  have exact: "fst (createWithdrawalRequest oc tz now nr nt (Some rest) (Number a) d)
                 = errorResponse 400 ''Insufficient balance''"
    by (simp add: Let_def)
  have "is_client_error
           (fst (createWithdrawalRequest oc tz now nr nt (Some rest) reqAmount d)) \<and>
         withdrawalRequests
           (snd (createWithdrawalRequest oc tz now nr nt (Some rest) reqAmount d))
           = withdrawalRequests d"
  proof (cases rule: create_cases [of oc tz now nr nt "Some rest" reqAmount d])
    case early
    then show ?thesis by simp
  next
    case (refused rest0 rid0)
    then show ?thesis by simp
  next
    case (created rest0 rid0 a0)
    with assms have "a0 \<le> effectiveAvailableBalance tz now rid d
                             (fst (findOrCreateByRestaurantId rid d))"
      by simp
    with assms(2,3) created(3) show ?thesis by simp
  qed
  with exact show ?thesis by simp
qed

theorem create_over_balance_rejected_witness:
  "r_id demo_restaurant = Some demo_rid \<and>
   effectiveAvailableBalance demo_tz demo_now demo_rid demo_db
     (fst (findOrCreateByRestaurantId demo_rid demo_db)) = 90 \<and>
   fst (createWithdrawalRequest noEffect demo_tz demo_now demo_request_id demo_txn_id
          (Some demo_restaurant) (Number 100) demo_db)
     = errorResponse 400 ''Insufficient balance'' \<and>
   withdrawalRequests
     (snd (createWithdrawalRequest noEffect demo_tz demo_now demo_request_id demo_txn_id
             (Some demo_restaurant) (Number 100) demo_db)) = []"
proof -
  have h1: "r_id demo_restaurant = Some demo_rid"
    by (simp add: demo_restaurant_def)
  have h2: "effectiveAvailableBalance demo_tz demo_now demo_rid demo_db
              (fst (findOrCreateByRestaurantId demo_rid demo_db)) = 90"
    by (simp add: demo_defs eval_defs)
  have h3: "100 > effectiveAvailableBalance demo_tz demo_now demo_rid demo_db
              (fst (findOrCreateByRestaurantId demo_rid demo_db))"
    by (simp add: h2)
  have h4: "withdrawalRequests demo_db = []"
    by (simp add: demo_db_def)
  have h5: "parseFloat (Number 100) = Some 100"
    by simp
  from create_over_balance_rejected [OF h1 h5 h3, of noEffect demo_request_id demo_txn_id]
       h1 h2 h4
  show ?thesis by simp
qed



text \<open>
  C3. At most one Pending request per restaurant: the property is kept by every one of
  the three operations, whatever their outcome; and a create call of a restaurant that has
  a Pending request is answered with a client error and leaves the collection of requests
  as it was.
\<close>

theorem one_pending_request_per_restaurant:
  assumes "onePendingPerRestaurant d"
  shows "onePendingPerRestaurant (snd (perform oc tz now opn d)) \<and>
         (r_id rest = Some rid \<and> pendingRequests rid d \<noteq> [] \<longrightarrow>
            is_client_error
              (fst (createWithdrawalRequest oc tz now nr nt (Some rest) reqAmount d)) \<and>
            withdrawalRequests
              (snd (createWithdrawalRequest oc tz now nr nt (Some rest) reqAmount d))
              = withdrawalRequests d)"
proof -
  have inv: "onePendingPerRestaurant (snd (perform oc tz now opn d))"
    using assms by (rule perform_keeps_onePending)
  have refuse: "is_client_error
          (fst (createWithdrawalRequest oc tz now nr nt (Some rest) reqAmount d)) \<and>
        withdrawalRequests
          (snd (createWithdrawalRequest oc tz now nr nt (Some rest) reqAmount d))
          = withdrawalRequests d"
    if h: "r_id rest = Some rid \<and> pendingRequests rid d \<noteq> []"
  proof (cases rule: create_cases [of oc tz now nr nt "Some rest" reqAmount d])
    case early
    then show ?thesis by simp
  next
    case (refused rest0 rid0)
    then show ?thesis by simp
  next
    case (created rest0 rid0 a)
    from h have ex: "\<exists>r \<in> set (withdrawalRequests d). restaurantId r = rid \<and> status r = Pending"
      by (auto simp: pendingRequests_def filter_empty_conv)
    from created h have "rid0 = rid" by simp
    with created(6) ex show ?thesis by simp
  qed
  from inv refuse show ?thesis by blast
qed

theorem one_pending_request_per_restaurant_witness:
  "onePendingPerRestaurant demo_db_pending \<and>
   r_id demo_restaurant = Some demo_rid \<and>
   pendingRequests demo_rid demo_db_pending = [demo_request] \<and>
   onePendingPerRestaurant
     (snd (perform noEffect demo_tz demo_now
             (Create demo_request_id demo_txn_id2 (Some demo_restaurant) (Number 10))
             demo_db_pending)) \<and>
   is_client_error
     (fst (createWithdrawalRequest noEffect demo_tz demo_now demo_request_id demo_txn_id2
             (Some demo_restaurant) (Number 10) demo_db_pending)) \<and>
   withdrawalRequests
     (snd (createWithdrawalRequest noEffect demo_tz demo_now demo_request_id demo_txn_id2
             (Some demo_restaurant) (Number 10) demo_db_pending)) = [demo_request]"
proof -
  have h1: "onePendingPerRestaurant demo_db_pending"
    by (simp add: onePendingPerRestaurant_def pendingRequests_def demo_db_pending_def
          demo_request_def)
  have h2: "r_id demo_restaurant = Some demo_rid"
    by (simp add: demo_restaurant_def)
  have h3: "pendingRequests demo_rid demo_db_pending = [demo_request]"
    by (simp add: pendingRequests_def demo_db_pending_def demo_request_def)
  have h4: "withdrawalRequests demo_db_pending = [demo_request]"
    by (simp add: demo_db_pending_def)
  from one_pending_request_per_restaurant [OF h1, of noEffect demo_tz demo_now
      "Create demo_request_id demo_txn_id2 (Some demo_restaurant) (Number 10)"
      demo_restaurant demo_rid demo_request_id demo_txn_id2 "Number 10"] h1 h2 h3 h4
  show ?thesis by simp
qed

text \<open>
  C4 (as amended). A successful create with amount \<open>a\<close> stores a new request with
  status Pending and amount \<open>a\<close> that links to a new wallet transaction, appends that
  transaction (a withdrawal of \<open>a\<close>, status Pending) to the wallet, sets
  \<open>totalBalance\<close> to \<open>max 0 (totalBalance - a)\<close>, which is \<open>totalBalance - a\<close>
  when \<open>a\<close> is at most the stored balance, and adds \<open>a\<close> to \<open>totalWithdrawn\<close>.
\<close>

theorem create_success_writes:
  assumes "r_id rest = Some rid"
      and "parseFloat reqAmount = Some a"
      and "is_success (fst (createWithdrawalRequest oc tz now nr nt (Some rest) reqAmount d))"
  defines "w \<equiv> fst (findOrCreateByRestaurantId rid d)"
      and "d' \<equiv> snd (createWithdrawalRequest oc tz now nr nt (Some rest) reqAmount d)"
  shows "withdrawalRequests d' = withdrawalRequests d @ [createdRequest rest rid a nr nt d] \<and>
         status (createdRequest rest rid a nr nt d) = Pending \<and>
         amount (createdRequest rest rid a nr nt d) = a \<and>
         restaurantId (createdRequest rest rid a nr nt d) = rid \<and>
         transactionId (createdRequest rest rid a nr nt d)
           = Some (txn_id (createdTransaction nt a nr)) \<and>
         txn_type (createdTransaction nt a nr) = withdrawal \<and>
         txn_status (createdTransaction nt a nr) = TxnPending \<and>
         txn_amount (createdTransaction nt a nr) = a \<and>
         map_option transactions (wallets d' rid)
           = Some (transactions w @ [createdTransaction nt a nr]) \<and>
         map_option totalBalance (wallets d' rid) = Some (max 0 (totalBalance w - a)) \<and>
         map_option totalWithdrawn (wallets d' rid) = Some (totalWithdrawn w + a) \<and>
         (a \<le> totalBalance w \<longrightarrow>
            map_option totalBalance (wallets d' rid) = Some (totalBalance w - a))"
proof (cases rule: create_cases [of oc tz now nr nt "Some rest" reqAmount d])
  case early
  with assms(3) show ?thesis
    by (cases "fst (createWithdrawalRequest oc tz now nr nt (Some rest) reqAmount d)") simp_all
next
  case (refused rest0 rid0)
  with assms(3) show ?thesis
    by (cases "fst (createWithdrawalRequest oc tz now nr nt (Some rest) reqAmount d)") simp_all
next
  case (created rest0 rid0 a0)
  with assms(1,2) have e: "rest0 = rest" "rid0 = rid" "a0 = a" by simp_all
  show ?thesis
    unfolding d'_def w_def created(7) e
    by (simp add: createdRequest_def createdTransaction_def)
qed

theorem create_success_writes_witness:
  "r_id demo_restaurant = Some demo_rid \<and>
   createWithdrawalRequest noEffect demo_tz demo_now demo_request_id demo_txn_id
     (Some demo_restaurant) (Number 50) demo_db
     = (successResponse 201 ''Withdrawal request created successfully'' demo_request,
        demo_db_pending) \<and>
   createdRequest demo_restaurant demo_rid 50 demo_request_id demo_txn_id demo_db = demo_request \<and>
   map_option totalBalance
     (wallets (snd (createWithdrawalRequest noEffect demo_tz demo_now demo_request_id demo_txn_id
                      (Some demo_restaurant) (Number 50) demo_db)) demo_rid) = Some 0 \<and>
   map_option totalWithdrawn
     (wallets (snd (createWithdrawalRequest noEffect demo_tz demo_now demo_request_id demo_txn_id
                      (Some demo_restaurant) (Number 50) demo_db)) demo_rid) = Some 50"
proof -
  have h1: "r_id demo_restaurant = Some demo_rid"
    by (simp add: demo_restaurant_def)
  have run: "createWithdrawalRequest noEffect demo_tz demo_now demo_request_id demo_txn_id
     (Some demo_restaurant) (Number 50) demo_db
     = (successResponse 201 ''Withdrawal request created successfully'' demo_request,
        demo_db_pending)"
    by (simp add: createWithdrawalRequest_def demo_defs eval_defs)
  then have h2: "is_success (fst (createWithdrawalRequest noEffect demo_tz demo_now
     demo_request_id demo_txn_id (Some demo_restaurant) (Number 50) demo_db))"
    by simp
  have h3: "createdRequest demo_restaurant demo_rid 50 demo_request_id demo_txn_id demo_db
              = demo_request"
    by (simp add: createdRequest_def demo_defs)
  have h4: "fst (findOrCreateByRestaurantId demo_rid demo_db) = emptyWallet"
    by (simp add: findOrCreateByRestaurantId_def demo_db_def)
  have h0: "parseFloat (Number 50) = Some 50"
    by simp
  from create_success_writes [OF h1 h0 h2] h1 run h3 h4
  show ?thesis by (simp add: emptyWallet_def)
qed

text \<open>
  C4 as stated fails: with a stored balance of 0 and a weekly payout of 90, a request of
  50 is accepted, and the balance stays 0 instead of being decremented by 50.
\<close>

theorem create_decrement_counterexample:
  "is_success (fst (createWithdrawalRequest noEffect demo_tz demo_now demo_request_id demo_txn_id
                      (Some demo_restaurant) (Number 50) demo_db)) \<and>
   totalBalance (fst (findOrCreateByRestaurantId demo_rid demo_db)) = 0 \<and>
   map_option totalBalance
     (wallets (snd (createWithdrawalRequest noEffect demo_tz demo_now demo_request_id demo_txn_id
                      (Some demo_restaurant) (Number 50) demo_db)) demo_rid)
     \<noteq> Some (totalBalance (fst (findOrCreateByRestaurantId demo_rid demo_db)) - 50)"
proof -
  have run: "createWithdrawalRequest noEffect demo_tz demo_now demo_request_id demo_txn_id
     (Some demo_restaurant) (Number 50) demo_db
     = (successResponse 201 ''Withdrawal request created successfully'' demo_request,
        demo_db_pending)"
    by (simp add: createWithdrawalRequest_def demo_defs eval_defs)
  have h4: "fst (findOrCreateByRestaurantId demo_rid demo_db) = emptyWallet"
    by (simp add: findOrCreateByRestaurantId_def demo_db_def)
  show ?thesis
    unfolding run h4
    by (simp add: emptyWallet_def demo_db_pending_def demo_wallet_pending_def)
qed






text \<open>
  C7. The balance of no wallet is negative after any of the three operations, given that
  it was not before: create clamps at zero, approve leaves the balance alone, and reject
  adds the amount of a stored request, which is positive because create stores positive
  amounts only. Both facts together (no negative balance, positive stored amounts) are
  kept by every operation. The Completed effect of \<open>addTransaction\<close>, used on the
  fallback paths of approve and reject, is assumed not to make a balance negative.
\<close>

theorem balance_never_negative:
  assumes "\<forall>rid. balanceNotNegative (wallets d rid)"
      and "amountsPositive d"
      and "keepsNotNegative oc"
  shows "(\<forall>rid. balanceNotNegative (wallets (snd (perform oc tz now opn d)) rid)) \<and>
         amountsPositive (snd (perform oc tz now opn d))"
proof (cases opn)
  case (Create nr nt rr ra)
  show ?thesis
  proof (cases rule: create_cases [of oc tz now nr nt rr ra d])
    case early
    with Create assms show ?thesis by simp
  next
    case (refused rest rid0)
    from assms(1) have "0 \<le> totalBalance (fst (findOrCreateByRestaurantId rid0 d))"
      by (simp add: findOrCreate_fst_nonneg)
    with Create refused(4) assms(1,2) show ?thesis
      by (simp add: amountsPositive_def)
  next
    case (created rest rid0 a)
    with Create assms(1,2) show ?thesis
      by (simp add: amountsPositive_def createdRequest_def)
  qed
next
  case (Approve nt adm ident)
  show ?thesis
  proof (cases rule: approve_cases [of oc now nt adm ident d])
    case failed
    with Approve assms show ?thesis by simp
  next
    case (approved a k p)
    let ?r = "withdrawalRequests d ! k"
    from findIndex_Some [OF approved(2)] have kl: "k < length (withdrawalRequests d)" by simp
    with assms(2) have pos: "0 < amount ?r"
      by (simp add: amountsPositive_def list_all_length)
    from assms(1) have "0 \<le> totalBalance (fst (findOrCreateByRestaurantId (restaurantId ?r) d))"
      by (simp add: findOrCreate_fst_nonneg)
    from approvedWallet_nonneg [OF assms(3) this]
    have w: "0 \<le> totalBalance (approvedWallet oc now nt ?r
                (fst (findOrCreateByRestaurantId (restaurantId ?r) d)))" .
    have "amountsPositive (snd (perform oc tz now opn d))"
      by (rule amountsPositive_update [OF assms(2), of _ k "approvedRequest now a ?r"])
         (simp_all add: Approve approved(5) approvedRequest_def pos)
    with Approve approved(5) assms(1) w show ?thesis by simp
  qed
next
  case (Reject nt adm ident reason)
  show ?thesis
  proof (cases rule: reject_cases [of oc now nt adm ident reason d])
    case failed
    with Reject assms show ?thesis by simp
  next
    case (rejected a k p)
    let ?r = "withdrawalRequests d ! k"
    from findIndex_Some [OF rejected(2)] have kl: "k < length (withdrawalRequests d)" by simp
    with assms(2) have pos: "0 < amount ?r"
      by (simp add: amountsPositive_def list_all_length)
    from assms(1) have "0 \<le> totalBalance (fst (findOrCreateByRestaurantId (restaurantId ?r) d))"
      by (simp add: findOrCreate_fst_nonneg)
    from rejectedWallet_nonneg [OF assms(3) this pos]
    have w: "0 \<le> totalBalance (rejectedWallet oc now nt ?r
                (fst (findOrCreateByRestaurantId (restaurantId ?r) d)))" .
    have "amountsPositive (snd (perform oc tz now opn d))"
      by (rule amountsPositive_update [OF assms(2), of _ k "rejectedRequest now a reason ?r"])
         (simp_all add: Reject rejected(5) rejectedRequest_def pos split: option.split)
    with Reject rejected(5) assms(1) w show ?thesis by simp
  qed
qed

theorem balance_never_negative_witness:
  "(\<forall>rid. balanceNotNegative (wallets demo_db_pending rid)) \<and>
   amountsPositive demo_db_pending \<and>
   keepsNotNegative noEffect \<and>
   (\<forall>rid. balanceNotNegative
            (wallets (snd (perform noEffect demo_tz demo_now
                             (Reject demo_txn_id2 (Some demo_admin) demo_request_id None)
                             demo_db_pending)) rid)) \<and>
   amountsPositive (snd (perform noEffect demo_tz demo_now
                           (Reject demo_txn_id2 (Some demo_admin) demo_request_id None)
                           demo_db_pending))"
proof -
  have h1: "\<forall>rid. balanceNotNegative (wallets demo_db_pending rid)"
    by (simp add: demo_db_pending_def demo_wallet_pending_def)
  have h2: "amountsPositive demo_db_pending"
    by (simp add: amountsPositive_def demo_db_pending_def demo_request_def)
  have h3: "keepsNotNegative noEffect"
    by (simp add: keepsNotNegative_def noEffect_def)
  from balance_never_negative [OF h1 h2 h3, of demo_tz demo_now
      "Reject demo_txn_id2 (Some demo_admin) demo_request_id None"] h1 h2 h3
  show ?thesis by blast
qed







end
